theory Spec2Isabelle
  imports Main "HOL-Library.AList" "HOL-Library.Sublist"
begin

section \<open>google-sheet-db: the collection layer over a spreadsheet\<close>

text \<open>
  The development follows \<^verbatim>\<open>src/google-sheet-db.ts\<close> (class \<^verbatim>\<open>GoogleSheetDb\<close>, the
  revision with the \<^verbatim>\<open>initialized\<close> flag) and the part of \<^verbatim>\<open>src/google-sheet.ts\<close>
  it calls. JavaScript objects that the code shares by reference (collections, records)
  live in explicit stores and are passed around as addresses; every \<^verbatim>\<open>throw\<close> and every
  rejected remote call is a value \<open>Inl e\<close> returned together with the state reached so
  far, so that partial effects stay visible.
\<close>

subsection \<open>Values, errors, number formatting\<close>

text \<open>
  A JavaScript value as far as the code looks at it. Numbers are the integer-valued
  ones (row positions, counts), in the range where JavaScript adds and prints them
  exactly; \<^verbatim>\<open>NaN\<close> and fractions are outside the model.
\<close>

datatype jsval = JUndefined | JNull | JNum int | JStr string | JBool bool

datatype error =
    IndexOutOfRange       \<comment> \<open>\<^verbatim>\<open>Error('Index out range')\<close>\<close>
  | CollectionNotExists   \<comment> \<open>\<^verbatim>\<open>Error('Collection not exists')\<close>\<close>
  | InvalidRecord         \<comment> \<open>\<^verbatim>\<open>Error('Invalid record')\<close>\<close>
  | InvalidIndex          \<comment> \<open>\<^verbatim>\<open>Error('Invalid index')\<close>\<close>
  | SheetNotFound         \<comment> \<open>\<^verbatim>\<open>Error('Sheet not found')\<close>\<close>
  | TypeError             \<comment> \<open>a property read on \<^verbatim>\<open>undefined\<close> or \<^verbatim>\<open>null\<close>\<close>
  | RemoteFailure         \<comment> \<open>a rejected promise of the grid client\<close>

definition usage_error :: "error \<Rightarrow> bool" where
  "usage_error e = (e = CollectionNotExists \<or> e = InvalidRecord \<or> e = InvalidIndex)"

definition digits10 :: string where
  "digits10 = ''0123456789''"

fun string_of_nat :: "nat \<Rightarrow> string" where
  "string_of_nat n =
     (if n < 10 then [digits10 ! n]
      else string_of_nat (n div 10) @ [digits10 ! (n mod 10)])"

declare string_of_nat.simps [simp del]

text \<open>The decimal text a template literal gives an integer.\<close>

definition string_of_int :: "int \<Rightarrow> string" where
  "string_of_int k =
     (if k < 0 then ''-'' @ string_of_nat (nat (- k)) else string_of_nat (nat k))"

subsection \<open>Column letters\<close>

text \<open>The array \<^verbatim>\<open>AZ\<close> of the 26 one-letter strings.\<close>

definition AZ :: "string list" where
  "AZ = map (\<lambda>c. [c]) ''ABCDEFGHIJKLMNOPQRSTUVWXYZ''"

text \<open>
  \<^verbatim>\<open>AZ[i]\<close> inside a string concatenation: an index outside the array reads
  \<^verbatim>\<open>undefined\<close>, which \<^verbatim>\<open>+\<close> turns into the text \<^verbatim>\<open>undefined\<close>.
\<close>

definition AZ_concat :: "int \<Rightarrow> string" where
  "AZ_concat i = (if 0 \<le> i \<and> i < 26 then AZ ! nat i else ''undefined'')"

text \<open>
  \<^verbatim>\<open>getColumnByIndex\<close>. In the branch \<^verbatim>\<open>index <= 26\<close> the guards give
  \<open>0 \<le> index - 1 < 26\<close>, so \<^verbatim>\<open>AZ[index - 1]\<close> is an element of the array.
\<close>

definition getColumnByIndex :: "int \<Rightarrow> error + string" where
  "getColumnByIndex index =
     (if index \<le> 0 then Inl IndexOutOfRange
      else if index \<le> 26 then Inr (AZ ! nat (index - 1))
      else
        (let a = (index - 1) mod 26;
             b = (index - 1) div 26 - 1
         in Inr (AZ_concat b @ AZ_concat a)))"

text \<open>
  The specification's words for the same function: the 1-based bijective base-26
  numeral (A = 1, ..., Z = 26, AA = 27, ...). This definition is written from the
  specification, to be compared with \<^const>\<open>getColumnByIndex\<close>.
\<close>

fun bijective_base26 :: "nat \<Rightarrow> string" where
  "bijective_base26 n =
     (if n = 0 then []
      else bijective_base26 ((n - 1) div 26) @ AZ ! ((n - 1) mod 26))"

declare bijective_base26.simps [simp del]

subsection \<open>Data model\<close>

text \<open>
  \<^verbatim>\<open>IRecord\<close>: an object with string keys. The list holds the own properties in
  the order \<^verbatim>\<open>Object.keys\<close> lists them (insertion order; JavaScript lists
  integer-like keys first, which the model does not reorder). The reserved fields
  \<^verbatim>\<open>_index\<close> and \<^verbatim>\<open>_id\<close> are ordinary properties, as in the code. Property names of
  \<^verbatim>\<open>Object.prototype\<close> used as field names are outside the model.
\<close>

type_synonym IRecord = "(string \<times> jsval) list"

definition obj_get :: "IRecord \<Rightarrow> string \<Rightarrow> jsval" where
  "obj_get r k = (case map_of r k of None \<Rightarrow> JUndefined | Some v \<Rightarrow> v)"

text \<open>\<^verbatim>\<open>r[k] = v\<close>: an existing property keeps its place, a new one goes last.\<close>

definition obj_set :: "string \<Rightarrow> jsval \<Rightarrow> IRecord \<Rightarrow> IRecord" where
  "obj_set k v r = AList.update k v r"

record GridProperties =
  rowCount :: nat       \<comment> \<open>0 also stands for an absent count: both are falsy\<close>
  columnCount :: nat

record ISheetProperty =
  title :: string
  sheetId :: nat
  gridProperties :: "GridProperties option"

text \<open>
  A JavaScript array with holes: \<open>None\<close> is a missing element, which \<^verbatim>\<open>forEach\<close> and
  \<^verbatim>\<open>filter\<close> skip. \<^verbatim>\<open>xs[i] = v\<close> with \<open>i\<close> beyond the end grows the array.
\<close>

definition js_set :: "'a option list \<Rightarrow> nat \<Rightarrow> 'a \<Rightarrow> 'a option list" where
  "js_set xs i v =
     (if i < length xs then xs[i := Some v]
      else xs @ replicate (i - length xs) None @ [Some v])"

text \<open>
  An array index is an integer from 0 to \<open>2\<^sup>3\<^sup>2 - 2\<close>. An assignment \<^verbatim>\<open>xs[k] = v\<close>
  with any other number \<open>k\<close> (a negative one, say) does not touch the elements or the
  length: it sets the property named \<open>k\<close> on the array object.
\<close>

definition array_index :: "int \<Rightarrow> bool" where
  "array_index k = (0 \<le> k \<and> k < 4294967295)"

text \<open>
  \<^verbatim>\<open>ICollection\<close>. \<open>data\<close> holds references to record objects; the properties of the
  array object that are not elements are kept in \<open>data_props\<close>.
\<close>

record ICollection =
  name :: string
  sheet :: "ISheetProperty option"          \<comment> \<open>\<^verbatim>\<open>null\<close> is \<open>None\<close>\<close>
  columns :: "string list"
  column_map :: "(string \<times> nat) list"       \<comment> \<open>name to \<^verbatim>\<open>{ index }\<close>\<close>
  data :: "nat option list"
  data_props :: "(int \<times> nat) list"
  initialized :: bool                       \<comment> \<open>an absent flag is falsy: \<open>False\<close>\<close>

definition data_set :: "int \<Rightarrow> nat \<Rightarrow> ICollection \<Rightarrow> ICollection" where
  "data_set k r c =
     (if array_index k then c\<lparr>data := js_set (data c) (nat k) r\<rparr>
      else c\<lparr>data_props := AList.update k r (data_props c)\<rparr>)"


text \<open>A row vector sent to the grid: a sparse array of values.\<close>

type_synonym row = "jsval option list"

text \<open>The requests the code sends to the grid client, in the order sent.\<close>

datatype remote_op =
    Authenticate
  | GetSheets
  | CreateSheet string
  | ApplyHeaderStyle nat
  | ReadData string
  | WriteData string "row list"
  | RemoveRows nat nat nat

text \<open>
  What lies outside the repository is a parameter: the answers of the spreadsheet
  service behind \<^verbatim>\<open>GoogleSheet\<close> (each may depend on all requests sent before; \<open>None\<close>
  and \<open>False\<close> are a rejected promise) and the values \<^verbatim>\<open>uuid()\<close> returns, in call
  order. \<^verbatim>\<open>readData\<close> resolves to \<^verbatim>\<open>undefined\<close> (inner \<open>None\<close>) for an empty
  range; cells come back as strings and a row may be shorter than the range.
\<close>

record env =
  uuid_v4 :: "nat \<Rightarrow> string"
  authenticate_ok :: "remote_op list \<Rightarrow> bool"
  getSheets_reply :: "remote_op list \<Rightarrow> ISheetProperty list option"
  createSheet_reply :: "remote_op list \<Rightarrow> string \<Rightarrow> ISheetProperty list option"
  applyHeaderStyle_ok :: "remote_op list \<Rightarrow> nat \<Rightarrow> bool"
  readData_reply :: "remote_op list \<Rightarrow> string \<Rightarrow> string list list option option"
  writeData_ok :: "remote_op list \<Rightarrow> string \<Rightarrow> row list \<Rightarrow> bool"
  removeRows_ok :: "remote_op list \<Rightarrow> nat \<Rightarrow> nat \<Rightarrow> nat \<Rightarrow> bool"

text \<open>
  The state of a \<^verbatim>\<open>GoogleSheetDb\<close> and of the objects it shares with its caller:
  \<open>collections\<close> is \<^verbatim>\<open>this.collections\<close>, a list of references into the store
  \<open>cheap\<close> of collection objects; \<open>rheap\<close> is the store of record objects; an address
  is a position in its store. \<open>trace\<close> lists the requests sent so far and
  \<open>uuid_calls\<close> counts the calls of \<^verbatim>\<open>uuid()\<close>.
\<close>

record db =
  collections :: "nat list"
  cheap :: "ICollection list"
  rheap :: "IRecord list"
  trace :: "remote_op list"
  uuid_calls :: nat

definition new_db :: db where
  "new_db = \<lparr>collections = [], cheap = [], rheap = [], trace = [], uuid_calls = 0\<rparr>"

definition new_record :: "IRecord \<Rightarrow> db \<Rightarrow> nat \<times> db" where
  "new_record r st = (length (rheap st), st\<lparr>rheap := rheap st @ [r]\<rparr>)"

definition new_collection :: "ICollection \<Rightarrow> db \<Rightarrow> nat \<times> db" where
  "new_collection c st = (length (cheap st), st\<lparr>cheap := cheap st @ [c]\<rparr>)"

definition set_collection :: "nat \<Rightarrow> ICollection \<Rightarrow> db \<Rightarrow> db" where
  "set_collection a c st = st\<lparr>cheap := (cheap st)[a := c]\<rparr>"

definition set_record :: "nat \<Rightarrow> IRecord \<Rightarrow> db \<Rightarrow> db" where
  "set_record a r st = st\<lparr>rheap := (rheap st)[a := r]\<rparr>"

definition uuid :: "env \<Rightarrow> db \<Rightarrow> string \<times> db" where
  "uuid e st = (uuid_v4 e (uuid_calls st), st\<lparr>uuid_calls := Suc (uuid_calls st)\<rparr>)"

text \<open>\<^verbatim>\<open>this.collections.find(x => x.name === collectionName)\<close>\<close>

definition find_collection :: "db \<Rightarrow> string \<Rightarrow> nat option" where
  "find_collection st collectionName =
     List.find (\<lambda>a. name (cheap st ! a) = collectionName) (collections st)"

subsection \<open>The grid client\<close>

definition sent :: "remote_op \<Rightarrow> db \<Rightarrow> db" where
  "sent op st = st\<lparr>trace := trace st @ [op]\<rparr>"

definition authenticate :: "env \<Rightarrow> db \<Rightarrow> (error + unit) \<times> db" where
  "authenticate e st =
     (if authenticate_ok e (trace st) then Inr () else Inl RemoteFailure, sent Authenticate st)"

definition getSheets :: "env \<Rightarrow> db \<Rightarrow> (error + ISheetProperty list) \<times> db" where
  "getSheets e st =
     (case getSheets_reply e (trace st) of
        None \<Rightarrow> Inl RemoteFailure
      | Some sheets \<Rightarrow> Inr sheets, sent GetSheets st)"

definition client_createSheet ::
  "env \<Rightarrow> string \<Rightarrow> db \<Rightarrow> (error + ISheetProperty list) \<times> db" where
  "client_createSheet e t st =
     (case createSheet_reply e (trace st) t of
        None \<Rightarrow> Inl RemoteFailure
      | Some sheets \<Rightarrow> Inr sheets, sent (CreateSheet t) st)"

definition applyHeaderStyle :: "env \<Rightarrow> nat \<Rightarrow> db \<Rightarrow> (error + unit) \<times> db" where
  "applyHeaderStyle e sid st =
     (if applyHeaderStyle_ok e (trace st) sid then Inr () else Inl RemoteFailure,
      sent (ApplyHeaderStyle sid) st)"

definition readData ::
  "env \<Rightarrow> string \<Rightarrow> db \<Rightarrow> (error + string list list option) \<times> db" where
  "readData e rng st =
     (case readData_reply e (trace st) rng of
        None \<Rightarrow> Inl RemoteFailure
      | Some rows \<Rightarrow> Inr rows, sent (ReadData rng) st)"

definition writeData :: "env \<Rightarrow> string \<Rightarrow> row list \<Rightarrow> db \<Rightarrow> (error + unit) \<times> db" where
  "writeData e rng values st =
     (if writeData_ok e (trace st) rng values then Inr () else Inl RemoteFailure,
      sent (WriteData rng values) st)"

definition removeRows :: "env \<Rightarrow> nat \<Rightarrow> nat \<Rightarrow> nat \<Rightarrow> db \<Rightarrow> (error + unit) \<times> db" where
  "removeRows e sid startIndex count st =
     (if removeRows_ok e (trace st) sid startIndex count then Inr () else Inl RemoteFailure,
      sent (RemoveRows sid startIndex count) st)"

text \<open>The range text \<^verbatim>\<open>`${sheetName}!${rangeStart}:${rangeEnd}`\<close>.\<close>

definition range_text :: "string \<Rightarrow> string \<Rightarrow> string \<Rightarrow> string" where
  "range_text sheetName rangeStart rangeEnd = sheetName @ ''!'' @ rangeStart @ '':'' @ rangeEnd"

subsection \<open>Sheets, headers and materialization\<close>

text \<open>
  \<^verbatim>\<open>createSheet\<close> (private): the sheet with the requested title is looked up in the
  answer; \<^verbatim>\<open>sheet.sheetId\<close> throws when there is none.
\<close>

definition createSheet :: "env \<Rightarrow> string \<Rightarrow> db \<Rightarrow> (error + ISheetProperty) \<times> db" where
  "createSheet e collectionName st =
     (case client_createSheet e collectionName st of
        (Inl err, st1) \<Rightarrow> (Inl err, st1)
      | (Inr sheets, st1) \<Rightarrow>
          (case List.find (\<lambda>x. title x = collectionName) sheets of
             None \<Rightarrow> (Inl TypeError, st1)
           | Some sh \<Rightarrow>
               (case applyHeaderStyle e (sheetId sh) st1 of
                  (Inl err, st2) \<Rightarrow> (Inl err, st2)
                | (Inr _, st2) \<Rightarrow> (Inr sh, st2))))"

text \<open>\<^verbatim>\<open>x && x.startsWith('_column_') ? '' : x\<close>\<close>

definition header_cell :: "string \<Rightarrow> jsval option" where
  "header_cell x = Some (JStr (if x \<noteq> [] \<and> prefix ''_column_'' x then [] else x))"

text \<open>\<^verbatim>\<open>syncHeader\<close>: one write of row 1 over the full column width.\<close>

definition syncHeader :: "env \<Rightarrow> nat \<Rightarrow> db \<Rightarrow> (error + unit) \<times> db" where
  "syncHeader e c st =
     (let collection = cheap st ! c;
          sheetName = name collection;
          rangeStart = ''A1''
      in case getColumnByIndex (int (length (columns collection))) of
           Inl err \<Rightarrow> (Inl err, st)
         | Inr col \<Rightarrow>
             (let rangeEnd = col @ ''1'';
                  values = [map header_cell (columns collection)]
              in writeData e (range_text sheetName rangeStart rangeEnd) values st))"

text \<open>
  The header row: a blank cell gets the synthetic name \<^verbatim>\<open>_column_<i>\<close>;
  a later cell with the same text takes over the map entry.
\<close>

fun scan_header ::
  "string list \<Rightarrow> nat \<Rightarrow> string list \<times> (string \<times> nat) list
     \<Rightarrow> string list \<times> (string \<times> nat) list" where
  "scan_header [] i (cols, cmap) = (cols, cmap)"
| "scan_header (x # xs) i (cols, cmap) =
     (let nm = (if x = [] then ''_column_'' @ string_of_nat i else x)
      in scan_header xs (Suc i) (cols @ [nm], AList.update nm i cmap))"

text \<open>\<^verbatim>\<open>x[j]\<close> on a row of the answer.\<close>

definition cell_at :: "string list \<Rightarrow> nat \<Rightarrow> jsval" where
  "cell_at x j = (if j < length x then JStr (x ! j) else JUndefined)"

text \<open>
  \<^verbatim>\<open>for (i ...) item[columns[i]] = x[columnMap[columns[i]].index]\<close>; reading
  \<^verbatim>\<open>.index\<close> of a missing map entry throws.
\<close>

fun fill_item ::
  "(string \<times> nat) list \<Rightarrow> string list \<Rightarrow> string list \<Rightarrow> IRecord \<Rightarrow> error + IRecord" where
  "fill_item cmap x [] item = Inr item"
| "fill_item cmap x (c # cs) item =
     (case map_of cmap c of
        None \<Rightarrow> Inl TypeError
      | Some j \<Rightarrow> fill_item cmap x cs (obj_set c (cell_at x j) item))"

text \<open>\<^verbatim>\<open>rows.forEach((x, index) => ...)\<close>: one fresh record object per data row.\<close>

fun load_rows ::
  "env \<Rightarrow> (string \<times> nat) list \<Rightarrow> string list \<Rightarrow> string list list \<Rightarrow> nat
     \<Rightarrow> nat option list \<Rightarrow> db \<Rightarrow> (error + nat option list) \<times> db" where
  "load_rows e cmap cols [] index acc st = (Inr acc, st)"
| "load_rows e cmap cols (x # xs) index acc st =
     (case uuid e st of
        (uid, st1) \<Rightarrow>
          (case fill_item cmap x cols [(''_index'', JNum (int index)), (''_id'', JStr uid)] of
             Inl err \<Rightarrow> (Inl err, st1)
           | Inr item \<Rightarrow>
               (case new_record item st1 of
                  (a, st2) \<Rightarrow> load_rows e cmap cols xs (Suc index) (acc @ [Some a]) st2)))"

text \<open>
  \<^verbatim>\<open>getCollectionDataBySheet\<close>. \<^verbatim>\<open>sheet.gridProperties\<close> is absent for a sheet
  that is not a grid, and \<^verbatim>\<open>rows[0]\<close> needs \<open>rows\<close> to be defined and the header row
  to exist; each of these throws a \<^verbatim>\<open>TypeError\<close> otherwise.
\<close>

definition getCollectionDataBySheet ::
  "env \<Rightarrow> ISheetProperty \<Rightarrow> db \<Rightarrow> (error + ICollection) \<times> db" where
  "getCollectionDataBySheet e sh st =
     (case gridProperties sh of
        None \<Rightarrow> (Inl TypeError, st)
      | Some gp \<Rightarrow>
          if rowCount gp \<noteq> 0 \<and> columnCount gp \<noteq> 0 then
            (case getColumnByIndex 1 of
               Inl err \<Rightarrow> (Inl err, st)
             | Inr c1 \<Rightarrow>
                 (case getColumnByIndex (int (columnCount gp)) of
                    Inl err \<Rightarrow> (Inl err, st)
                  | Inr cN \<Rightarrow>
                      (case readData e
                              (range_text (title sh) (c1 @ ''1'')
                                 (cN @ string_of_nat (rowCount gp))) st of
                         (Inl err, st1) \<Rightarrow> (Inl err, st1)
                       | (Inr None, st1) \<Rightarrow> (Inl TypeError, st1)
                       | (Inr (Some []), st1) \<Rightarrow> (Inl TypeError, st1)
                       | (Inr (Some (headerRow # rows)), st1) \<Rightarrow>
                           (case scan_header headerRow 0 ([], []) of
                              (cols, cmap) \<Rightarrow>
                                (case load_rows e cmap cols rows 0 [] st1 of
                                   (Inl err, st2) \<Rightarrow> (Inl err, st2)
                                 | (Inr dat, st2) \<Rightarrow>
                                     (Inr \<lparr>name = title sh, sheet = Some sh, columns = cols,
                                           column_map = cmap, data = dat, data_props = [],
                                           initialized = True\<rparr>, st2))))))
          else
            (Inr \<lparr>name = title sh, sheet = Some sh, columns = [], column_map = [],
                  data = [], data_props = [], initialized = True\<rparr>, st))"

text \<open>
  \<^verbatim>\<open>initCollection\<close>: nothing happens when the flag is set; otherwise the sheet is
  read and the columns, the map and the rows of the collection object are replaced.
\<close>

definition initCollection :: "env \<Rightarrow> nat \<Rightarrow> db \<Rightarrow> (error + unit) \<times> db" where
  "initCollection e c st =
     (if initialized (cheap st ! c) then (Inr (), st)
      else
        (case sheet (cheap st ! c) of
           None \<Rightarrow> (Inl TypeError, st)
         | Some sh \<Rightarrow>
             (case getCollectionDataBySheet e sh st of
                (Inl err, st1) \<Rightarrow> (Inl err, st1)
              | (Inr loaded, st1) \<Rightarrow>
                  (Inr (),
                   set_collection c
                     ((cheap st1 ! c)\<lparr>columns := columns loaded,
                                       column_map := column_map loaded,
                                       data := data loaded,
                                       data_props := data_props loaded,
                                       initialized := True\<rparr>) st1))))"

text \<open>
  \<^verbatim>\<open>initialize\<close>: the registry is emptied and refilled with one unmaterialized
  shell per remote sheet.
\<close>

fun push_shells :: "ISheetProperty list \<Rightarrow> db \<Rightarrow> db" where
  "push_shells [] st = st"
| "push_shells (sh # sheets) st =
     (case new_collection \<lparr>name = title sh, sheet = Some sh, columns = [], column_map = [],
                           data = [], data_props = [], initialized = False\<rparr> st of
        (a, st1) \<Rightarrow> push_shells sheets (st1\<lparr>collections := collections st1 @ [a]\<rparr>))"

definition initialize :: "env \<Rightarrow> db \<Rightarrow> (error + unit) \<times> db" where
  "initialize e st =
     (case authenticate e st of
        (Inl err, st1) \<Rightarrow> (Inl err, st1)
      | (Inr _, st1) \<Rightarrow>
          (case getSheets e st1 of
             (Inl err, st2) \<Rightarrow> (Inl err, st2)
           | (Inr sheets, st2) \<Rightarrow> (Inr (), push_shells sheets (st2\<lparr>collections := []\<rparr>))))"

subsection \<open>Projecting records onto columns\<close>

text \<open>\<^verbatim>\<open>Object.keys(x).filter(y => y !== '_index' && y !== '_id')\<close>\<close>

definition rColumns :: "IRecord \<Rightarrow> string list" where
  "rColumns x = filter (\<lambda>y. y \<noteq> ''_index'' \<and> y \<noteq> ''_id'') (map fst x)"

text \<open>
  \<^verbatim>\<open>rColumns.forEach(y => ...)\<close>, the same loop in \<^verbatim>\<open>insertMany\<close> and \<^verbatim>\<open>update\<close>:
  a field without a map entry gets the next offset, is appended to the columns and
  raises the \<^verbatim>\<open>syncHeader\<close> flag; then \<^verbatim>\<open>value[offset] = x[y]\<close>. The triple is
  (columns, column map, flag).
\<close>

fun project_fields ::
  "IRecord \<Rightarrow> string list \<Rightarrow> string list \<times> (string \<times> nat) list \<times> bool \<Rightarrow> row
     \<Rightarrow> (string list \<times> (string \<times> nat) list \<times> bool) \<times> row" where
  "project_fields x [] cm val = (cm, val)"
| "project_fields x (y # ys) (cols, cmap, sync) val =
     (case map_of cmap y of
        None \<Rightarrow>
          project_fields x ys (cols @ [y], AList.update y (length cols) cmap, True)
            (js_set val (length cols) (obj_get x y))
      | Some j \<Rightarrow> project_fields x ys (cols, cmap, sync) (js_set val j (obj_get x y)))"

text \<open>\<^verbatim>\<open>records.forEach(x => { ...; values.push(value) })\<close>\<close>

fun project_records ::
  "IRecord list \<Rightarrow> string list \<times> (string \<times> nat) list \<times> bool \<Rightarrow> row list
     \<Rightarrow> (string list \<times> (string \<times> nat) list \<times> bool) \<times> row list" where
  "project_records [] cm values = (cm, values)"
| "project_records (x # xs) cm values =
     (case project_fields x (rColumns x) cm [] of
        (cm1, val) \<Rightarrow> project_records xs cm1 (values @ [val]))"

text \<open>
  \<^verbatim>\<open>if (syncHeader) await this.syncHeader(collection); await writeData(range, values)\<close>,
  the two awaited calls that \<^verbatim>\<open>insertMany\<close> and \<^verbatim>\<open>update\<close> both end their remote
  part with.
\<close>

definition sync_and_write ::
  "env \<Rightarrow> nat \<Rightarrow> bool \<Rightarrow> string \<Rightarrow> row list \<Rightarrow> db \<Rightarrow> (error + unit) \<times> db" where
  "sync_and_write e c sync rng values st =
     (case (if sync then syncHeader e c st else (Inr (), st)) of
        (Inl err, st1) \<Rightarrow> (Inl err, st1)
      | (Inr _, st1) \<Rightarrow> writeData e rng values st1)"

subsection \<open>insert and insertMany\<close>

text \<open>
  The first part of \<^verbatim>\<open>insertMany\<close>: the collection is looked up in the registry; when
  there is none a new collection object is made, which is not pushed onto
  \<^verbatim>\<open>this.collections\<close>; a collection without a sheet gets one created, any other is
  materialized.
\<close>

definition insertMany_collection :: "env \<Rightarrow> string \<Rightarrow> db \<Rightarrow> (error + nat) \<times> db" where
  "insertMany_collection e collectionName st =
     (case (case find_collection st collectionName of
              None \<Rightarrow>
                new_collection \<lparr>name = collectionName, sheet = None, columns = [],
                                column_map = [], data = [], data_props = [],
                                initialized = False\<rparr> st
            | Some a \<Rightarrow> (a, st)) of
        (c, st0) \<Rightarrow>
          (case sheet (cheap st0 ! c) of
             None \<Rightarrow>
               (case createSheet e (name (cheap st0 ! c)) st0 of
                  (Inl err, st1) \<Rightarrow> (Inl err, st1)
                | (Inr sh, st1) \<Rightarrow>
                    (Inr c, set_collection c ((cheap st1 ! c)\<lparr>sheet := Some sh\<rparr>) st1))
           | Some _ \<Rightarrow>
               (case initCollection e c st0 of
                  (Inl err, st1) \<Rightarrow> (Inl err, st1)
                | (Inr _, st1) \<Rightarrow> (Inr c, st1))))"

text \<open>
  \<^verbatim>\<open>records.forEach((item, i) => { item._index = base + i; item._id = uuid() })\<close>:
  the record objects themselves are written, one after the other.
\<close>

fun stamp_records :: "env \<Rightarrow> nat list \<Rightarrow> nat \<Rightarrow> nat \<Rightarrow> db \<Rightarrow> db" where
  "stamp_records e [] base i st = st"
| "stamp_records e (item # items) base i st =
     (case uuid e st of
        (uid, st1) \<Rightarrow>
          stamp_records e items base (Suc i)
            (set_record item
               (obj_set ''_id'' (JStr uid)
                  (obj_set ''_index'' (JNum (int (base + i))) (rheap st1 ! item))) st1))"

text \<open>
  \<^verbatim>\<open>insertMany\<close>. The result is the value the promise resolves to. The columns and the
  map are changed before anything is sent; the rows are changed after the data write.
\<close>

definition insertMany :: "env \<Rightarrow> string \<Rightarrow> nat list \<Rightarrow> db \<Rightarrow> (error + jsval) \<times> db" where
  "insertMany e collectionName records st =
     (if records = [] then (Inr (JNum 0), st)
      else
        (case insertMany_collection e collectionName st of
           (Inl err, st1) \<Rightarrow> (Inl err, st1)
         | (Inr c, st1) \<Rightarrow>
             (case project_records (map (\<lambda>r. rheap st1 ! r) records)
                     (columns (cheap st1 ! c), column_map (cheap st1 ! c), False) [] of
                ((cols, cmap, sync), values) \<Rightarrow>
                  (let st2 = set_collection c
                               ((cheap st1 ! c)\<lparr>columns := cols, column_map := cmap\<rparr>) st1;
                       collection = cheap st2 ! c;
                       sheetName = name collection;
                       rangeStart = ''A'' @ string_of_nat (length (data collection) + 2)
                   in case getColumnByIndex (int (length (columns collection))) of
                        Inl err \<Rightarrow> (Inl err, st2)
                      | Inr col \<Rightarrow>
                          (let rangeEnd =
                                 col @ string_of_nat
                                         (length values + length (data collection) + 1)
                           in case sync_and_write e c sync
                                     (range_text sheetName rangeStart rangeEnd) values st2 of
                                (Inl err, st3) \<Rightarrow> (Inl err, st3)
                              | (Inr _, st3) \<Rightarrow>
                                  (let st4 = stamp_records e records
                                               (length (data (cheap st3 ! c))) 0 st3;
                                       st5 = set_collection c
                                               ((cheap st4 ! c)
                                                  \<lparr>data := data (cheap st4 ! c)
                                                             @ map Some records\<rparr>) st4
                                   in (Inr (JNum (int (length values))), st5)))))))"

text \<open>
  \<^verbatim>\<open>insert\<close> awaits \<^verbatim>\<open>insertMany\<close> and has no \<^verbatim>\<open>return\<close>: its promise resolves to
  \<^verbatim>\<open>undefined\<close>.
\<close>

definition insert_record :: "env \<Rightarrow> string \<Rightarrow> nat \<Rightarrow> db \<Rightarrow> (error + jsval) \<times> db" where
  "insert_record e collectionName record st =
     (case insertMany e collectionName [record] st of
        (Inl err, st1) \<Rightarrow> (Inl err, st1)
      | (Inr _, st1) \<Rightarrow> (Inr JUndefined, st1))"

subsection \<open>find, findOne and delete\<close>

text \<open>The elements of an array with their positions, holes left out.\<close>

fun elements :: "nat \<Rightarrow> 'a option list \<Rightarrow> (nat \<times> 'a) list" where
  "elements i [] = []"
| "elements i (None # xs) = elements (Suc i) xs"
| "elements i (Some a # xs) = (i, a) # elements (Suc i) xs"

text \<open>
  A predicate \<^verbatim>\<open>(value, index, obj) => boolean\<close> of the caller sees the record, its
  position and the whole row cache; it gets their contents and has no effect of
  its own.
\<close>

type_synonym predicate = "IRecord \<Rightarrow> nat \<Rightarrow> IRecord option list \<Rightarrow> bool"

definition defaultPredicateFn :: predicate where
  "defaultPredicateFn = (\<lambda>value index obj. True)"

definition matching :: "predicate \<Rightarrow> db \<Rightarrow> nat option list \<Rightarrow> (nat \<times> nat) list" where
  "matching p st xs =
     filter (\<lambda>(i, a). p (rheap st ! a) i (map (map_option (\<lambda>b. rheap st ! b)) xs))
       (elements 0 xs)"

definition find_records ::
  "env \<Rightarrow> string \<Rightarrow> predicate option \<Rightarrow> db \<Rightarrow> (error + nat list) \<times> db" where
  "find_records e collectionName predicate st =
     (case find_collection st collectionName of
        None \<Rightarrow> (Inr [], st)
      | Some c \<Rightarrow>
          (case initCollection e c st of
             (Inl err, st1) \<Rightarrow> (Inl err, st1)
           | (Inr _, st1) \<Rightarrow>
               (Inr (map snd
                       (matching (case predicate of None \<Rightarrow> defaultPredicateFn | Some p \<Rightarrow> p)
                          st1 (data (cheap st1 ! c)))), st1)))"

text \<open>\<^verbatim>\<open>(await this.find(...))[0]\<close>: \<open>None\<close> is \<^verbatim>\<open>undefined\<close>.\<close>

definition findOne ::
  "env \<Rightarrow> string \<Rightarrow> predicate option \<Rightarrow> db \<Rightarrow> (error + nat option) \<times> db" where
  "findOne e collectionName predicate st =
     (case find_records e collectionName predicate st of
        (Inl err, st1) \<Rightarrow> (Inl err, st1)
      | (Inr [], st1) \<Rightarrow> (Inr None, st1)
      | (Inr (r # _), st1) \<Rightarrow> (Inr (Some r), st1))"

text \<open>\<^verbatim>\<open>xs.splice(index, 1)\<close>\<close>

definition splice1 :: "nat \<Rightarrow> 'a list \<Rightarrow> 'a list" where
  "splice1 index xs = take index xs @ drop (Suc index) xs"

text \<open>
  The removal loop of \<^verbatim>\<open>delete\<close>, given the positions from the highest down: the
  remote row is removed and then \<^verbatim>\<open>this.collections.splice(index, 1)\<close> runs, on the
  registry.
\<close>

fun remove_loop :: "env \<Rightarrow> nat \<Rightarrow> nat list \<Rightarrow> db \<Rightarrow> (error + unit) \<times> db" where
  "remove_loop e c [] st = (Inr (), st)"
| "remove_loop e c (index # rest) st =
     (case sheet (cheap st ! c) of
        None \<Rightarrow> (Inl TypeError, st)
      | Some sh \<Rightarrow>
          (case removeRows e (sheetId sh) (index + 1) 1 st of
             (Inl err, st1) \<Rightarrow> (Inl err, st1)
           | (Inr _, st1) \<Rightarrow>
               remove_loop e c rest (st1\<lparr>collections := splice1 index (collections st1)\<rparr>)))"

text \<open>\<^verbatim>\<open>collection.data.forEach((item, i) => { item._index = i; item._id = uuid() })\<close>\<close>

fun restamp :: "env \<Rightarrow> (nat \<times> nat) list \<Rightarrow> db \<Rightarrow> db" where
  "restamp e [] st = st"
| "restamp e ((i, item) # rest) st =
     (case uuid e st of
        (uid, st1) \<Rightarrow>
          restamp e rest
            (set_record item
               (obj_set ''_id'' (JStr uid)
                  (obj_set ''_index'' (JNum (int i)) (rheap st1 ! item))) st1))"

definition delete_records ::
  "env \<Rightarrow> string \<Rightarrow> predicate \<Rightarrow> db \<Rightarrow> (error + jsval) \<times> db" where
  "delete_records e collectionName predicate st =
     (case find_collection st collectionName of
        None \<Rightarrow> (Inr (JNum 0), st)
      | Some c \<Rightarrow>
          (case initCollection e c st of
             (Inl err, st1) \<Rightarrow> (Inl err, st1)
           | (Inr _, st1) \<Rightarrow>
               (let deleteIndex = map fst (matching predicate st1 (data (cheap st1 ! c)))
                in case remove_loop e c (rev deleteIndex) st1 of
                     (Inl err, st2) \<Rightarrow> (Inl err, st2)
                   | (Inr _, st2) \<Rightarrow>
                       (Inr (JNum (int (length deleteIndex))),
                        restamp e (elements 0 (data (cheap st2 ! c))) st2))))"

subsection \<open>update and refreshRecord\<close>

text \<open>
  The three checks that \<^verbatim>\<open>update\<close> and \<^verbatim>\<open>refreshRecord\<close> start with, in the order
  of the code; \<open>None\<close> is a \<^verbatim>\<open>null\<close> or \<^verbatim>\<open>undefined\<close> record argument. The result is
  the collection, the record and the number in its \<^verbatim>\<open>_index\<close>.
\<close>

definition check_usage :: "db \<Rightarrow> string \<Rightarrow> nat option \<Rightarrow> error + nat \<times> nat \<times> int" where
  "check_usage st collectionName record =
     (case find_collection st collectionName of
        None \<Rightarrow> Inl CollectionNotExists
      | Some c \<Rightarrow>
          (case record of
             None \<Rightarrow> Inl InvalidRecord
           | Some r \<Rightarrow>
               (case obj_get (rheap st ! r) ''_index'' of
                  JNum k \<Rightarrow> Inr (c, r, k)
                | _ \<Rightarrow> Inl InvalidIndex)))"

text \<open>
  \<^verbatim>\<open>update\<close>. Materialization makes new record objects only, so the later reads of
  \<^verbatim>\<open>record._index\<close> see the number \<open>k\<close> that passed the check.
\<close>

definition update_record ::
  "env \<Rightarrow> string \<Rightarrow> nat option \<Rightarrow> db \<Rightarrow> (error + jsval) \<times> db" where
  "update_record e collectionName record st =
     (case check_usage st collectionName record of
        Inl err \<Rightarrow> (Inl err, st)
      | Inr (c, r, k) \<Rightarrow>
          (case initCollection e c st of
             (Inl err, st1) \<Rightarrow> (Inl err, st1)
           | (Inr _, st1) \<Rightarrow>
               (case project_fields (rheap st1 ! r) (rColumns (rheap st1 ! r))
                       (columns (cheap st1 ! c), column_map (cheap st1 ! c), False) [] of
                  ((cols, cmap, sync), val) \<Rightarrow>
                    (let values = [val];
                         st2 = set_collection c
                                 ((cheap st1 ! c)\<lparr>columns := cols, column_map := cmap\<rparr>) st1;
                         collection = cheap st2 ! c;
                         sheetName = name collection;
                         rangeStart = ''A'' @ string_of_int (k + 2)
                     in case getColumnByIndex (int (length (columns collection))) of
                          Inl err \<Rightarrow> (Inl err, st2)
                        | Inr col \<Rightarrow>
                            (let rangeEnd = col @ string_of_int (int (length values) + k + 1)
                             in case sync_and_write e c sync
                                       (range_text sheetName rangeStart rangeEnd) values st2 of
                                  (Inl err, st3) \<Rightarrow> (Inl err, st3)
                                | (Inr _, st3) \<Rightarrow>
                                    (Inr (JBool True),
                                     set_collection c (data_set k r (cheap st3 ! c)) st3))))))"

text \<open>
  \<^verbatim>\<open>refreshRecord\<close>: one row is read again and every field of the caller's record
  other than the reserved two is overwritten from it.
\<close>

definition refreshRecord ::
  "env \<Rightarrow> string \<Rightarrow> nat option \<Rightarrow> db \<Rightarrow> (error + unit) \<times> db" where
  "refreshRecord e collectionName record st =
     (case check_usage st collectionName record of
        Inl err \<Rightarrow> (Inl err, st)
      | Inr (c, r, k) \<Rightarrow>
          (case initCollection e c st of
             (Inl err, st1) \<Rightarrow> (Inl err, st1)
           | (Inr _, st1) \<Rightarrow>
               (let collection = cheap st1 ! c;
                    sheetName = name collection;
                    rangeStart = ''A'' @ string_of_int (k + 2)
                in case getColumnByIndex (int (length (columns collection))) of
                     Inl err \<Rightarrow> (Inl err, st1)
                   | Inr col \<Rightarrow>
                       (let rangeEnd = col @ string_of_int (1 + k + 1)
                        in case readData e (range_text sheetName rangeStart rangeEnd) st1 of
                             (Inl err, st2) \<Rightarrow> (Inl err, st2)
                           | (Inr None, st2) \<Rightarrow> (Inl TypeError, st2)
                           | (Inr (Some []), st2) \<Rightarrow> (Inl TypeError, st2)
                           | (Inr (Some (rowItem # _)), st2) \<Rightarrow>
                               (case fill_item (column_map collection) rowItem
                                       (columns collection)
                                       [(''_index'', JNum k),
                                        (''_id'', obj_get (rheap st2 ! r) ''_id'')] of
                                  Inl err \<Rightarrow> (Inl err, st2)
                                | Inr item \<Rightarrow>
                                    (Inr (),
                                     set_record r
                                       (fold (\<lambda>key rec.
                                                if key = ''_index'' \<or> key = ''_id'' then rec
                                                else obj_set key (obj_get item key) rec)
                                          (map fst (rheap st2 ! r)) (rheap st2 ! r)) st2))))))"

subsection \<open>A sample spreadsheet\<close>

text \<open>
  A service that accepts every request. It holds the sheet \<^verbatim>\<open>users\<close> (sheet id 7)
  with the header \<^verbatim>\<open>name\<close> and four data rows, and the empty sheet \<^verbatim>\<open>orders\<close>
  (sheet id 9); it gives a sheet it is asked to create the id 8; \<^verbatim>\<open>uuid()\<close> returns
  \<^verbatim>\<open>u0\<close>, \<^verbatim>\<open>u1\<close>, ... in turn.
\<close>

definition users_sheet :: ISheetProperty where
  "users_sheet = \<lparr>title = ''users'', sheetId = 7,
                  gridProperties = Some \<lparr>rowCount = 5, columnCount = 1\<rparr>\<rparr>"

definition orders_sheet :: ISheetProperty where
  "orders_sheet = \<lparr>title = ''orders'', sheetId = 9,
                   gridProperties = Some \<lparr>rowCount = 0, columnCount = 0\<rparr>\<rparr>"

definition sample_env :: env where
  "sample_env =
     \<lparr>uuid_v4 = (\<lambda>n. ''u'' @ string_of_nat n),
      authenticate_ok = (\<lambda>tr. True),
      getSheets_reply = (\<lambda>tr. Some [users_sheet, orders_sheet]),
      createSheet_reply =
        (\<lambda>tr t. Some [users_sheet, orders_sheet,
                        \<lparr>title = t, sheetId = 8,
                         gridProperties = Some \<lparr>rowCount = 1000, columnCount = 26\<rparr>\<rparr>]),
      applyHeaderStyle_ok = (\<lambda>tr sid. True),
      readData_reply = (\<lambda>tr rng. Some (Some [[''name''], [''a''], [''b''], [''c''], [''d'']])),
      writeData_ok = (\<lambda>tr rng values. True),
      removeRows_ok = (\<lambda>tr sid startIndex count. True)\<rparr>"

text \<open>The state after \<^verbatim>\<open>new GoogleSheetDb(...)\<close> and \<^verbatim>\<open>initialize()\<close>.\<close>

definition sample_db :: db where
  "sample_db = snd (initialize sample_env new_db)"

text \<open>The same after a first \<^verbatim>\<open>find('users')\<close>, which materializes the collection.\<close>

definition loaded_db :: db where
  "loaded_db = snd (find_records sample_env ''users'' None sample_db)"

text \<open>
  The materialized state with one more record object of the caller, at address 4,
  whose \<^verbatim>\<open>_index\<close> is a string.
\<close>

definition unindexed_db :: db where
  "unindexed_db = snd (new_record [(''name'', JStr ''z''), (''_index'', JStr ''1'')] loaded_db)"

text \<open>
  States in which the caller has made one more record object: on the fresh registry
  (address 0), and on the materialized one (address 4) a record with a field the
  sheet has no column for, a changed copy of the record at position 1 with such a
  field, and two records whose \<^verbatim>\<open>_index\<close> points outside the row cache.
\<close>

definition named_db :: db where
  "named_db = snd (new_record [(''name'', JStr ''a'')] sample_db)"


definition edited_db :: db where
  "edited_db =
     snd (new_record [(''_index'', JNum 1), (''_id'', JStr ''u1''), (''name'', JStr ''B''),
                      (''age'', JNum 7)] loaded_db)"



text \<open>A predicate of the caller that picks the positions 1 and 3.\<close>

definition at_1_or_3 :: predicate where
  "at_1_or_3 = (\<lambda>value index obj. index = 1 \<or> index = 3)"

section \<open>Properties\<close>

subsection \<open>Column letters\<close>

lemma getColumnByIndex_nonpositive: "n \<le> 0 \<Longrightarrow> getColumnByIndex n = Inl IndexOutOfRange"
  by (simp add: getColumnByIndex_def)

lemma bijective_base26_one_letter:
  "1 \<le> n \<Longrightarrow> n \<le> 26 \<Longrightarrow> bijective_base26 n = AZ ! (n - 1)"
  by (subst bijective_base26.simps, subst bijective_base26.simps) simp

lemma bijective_base26_two_letters:
  assumes "27 \<le> n" "n \<le> 702"
  shows "bijective_base26 n = AZ ! ((n - 1) div 26 - 1) @ AZ ! ((n - 1) mod 26)"
proof -
  have q: "1 \<le> (n - 1) div 26" "(n - 1) div 26 \<le> 26"
    using assms by simp_all
  have "bijective_base26 n = bijective_base26 ((n - 1) div 26) @ AZ ! ((n - 1) mod 26)"
    using assms by (subst bijective_base26.simps) simp
  with q show ?thesis
    by (simp add: bijective_base26_one_letter)
qed

text \<open>
  Up to 702 (\<^verbatim>\<open>ZZ\<close>) the code computes the bijective base-26 numeral.
\<close>

lemma getColumnByIndex_up_to_ZZ:
  assumes "1 \<le> n" "n \<le> 702"
  shows "getColumnByIndex (int n) = Inr (bijective_base26 n)"
proof (cases "n \<le> 26")
  case True
  with assms show ?thesis
    by (simp add: getColumnByIndex_def bijective_base26_one_letter nat_diff_distrib')
next
  case False
  then have n: "27 \<le> n" by simp
  have d: "(int n - 1) div 26 = int ((n - 1) div 26)"
    and m: "(int n - 1) mod 26 = int ((n - 1) mod 26)"
    using n by (simp_all add: zdiv_int zmod_int of_nat_diff)
  have q: "1 \<le> (n - 1) div 26" "(n - 1) div 26 \<le> 26"
    using n assms by simp_all
  have b: "nat (int ((n - 1) div 26) - 1) = (n - 1) div 26 - 1"
    using q by linarith
  have "getColumnByIndex (int n)
          = Inr (AZ_concat (int ((n - 1) div 26) - 1) @ AZ_concat (int ((n - 1) mod 26)))"
    using n by (simp add: getColumnByIndex_def Let_def d m)
  also have "AZ_concat (int ((n - 1) div 26) - 1) = AZ ! ((n - 1) div 26 - 1)"
    using q b by (simp add: AZ_concat_def)
  also have "AZ_concat (int ((n - 1) mod 26)) = AZ ! ((n - 1) mod 26)"
    by (simp add: AZ_concat_def)
  finally show ?thesis
    using n assms by (simp add: bijective_base26_two_letters)
qed

text \<open>
  C1. The column letter-encoding is claimed to return the bijective base-26
  numeral of every offset \<open>n \<ge> 1\<close> and to be injective there. Beyond 702 the
  code reads \<^verbatim>\<open>AZ[b]\<close> outside the array: 703 and 729 both give the text
  \<^verbatim>\<open>undefinedA\<close>, where the numerals are \<^verbatim>\<open>AAA\<close> and \<^verbatim>\<open>ABA\<close>.
\<close>

theorem getColumnByIndex_beyond_ZZ:
  "getColumnByIndex 703 = Inr ''undefinedA'' \<and> getColumnByIndex 729 = Inr ''undefinedA''
   \<and> bijective_base26 703 = ''AAA'' \<and> bijective_base26 729 = ''ABA''"
  by (simp add: getColumnByIndex_def AZ_concat_def AZ_def bijective_base26.simps)

subsection \<open>Frames of the building blocks\<close>

lemma set_collection_simps:
  "trace (set_collection c x st) = trace st"
  "rheap (set_collection c x st) = rheap st"
  "collections (set_collection c x st) = collections st"
  "uuid_calls (set_collection c x st) = uuid_calls st"
  "length (cheap (set_collection c x st)) = length (cheap st)"
  "c < length (cheap st) \<Longrightarrow> cheap (set_collection c x st) ! c = x"
  "c' \<noteq> c \<Longrightarrow> cheap (set_collection c x st) ! c' = cheap st ! c'"
  by (simp_all add: set_collection_def)



lemma sync_and_write_result:
  assumes "getColumnByIndex (int (length (columns (cheap st ! c)))) = Inr col"
  shows "sync_and_write e c sync rng values st =
    (if sync then
       (if writeData_ok e (trace st) (range_text (name (cheap st ! c)) ''A1'' (col @ ''1''))
             [map header_cell (columns (cheap st ! c))]
        then
          (if writeData_ok e
                (trace st @ [WriteData (range_text (name (cheap st ! c)) ''A1'' (col @ ''1''))
                               [map header_cell (columns (cheap st ! c))]]) rng values
           then Inr () else Inl RemoteFailure,
           st\<lparr>trace := trace st
                  @ [WriteData (range_text (name (cheap st ! c)) ''A1'' (col @ ''1''))
                       [map header_cell (columns (cheap st ! c))],
                     WriteData rng values]\<rparr>)
        else
          (Inl RemoteFailure,
           st\<lparr>trace := trace st
                  @ [WriteData (range_text (name (cheap st ! c)) ''A1'' (col @ ''1''))
                       [map header_cell (columns (cheap st ! c))]]\<rparr>))
     else
       (if writeData_ok e (trace st) rng values then Inr () else Inl RemoteFailure,
        st\<lparr>trace := trace st @ [WriteData rng values]\<rparr>))"
  using assms
  by (simp add: sync_and_write_def syncHeader_def writeData_def sent_def Let_def)





subsection \<open>Usage errors of update\<close>

lemma initCollection_done:
  "initialized (cheap st ! c) \<Longrightarrow> initCollection e c st = (Inr (), st)"
  by (simp add: initCollection_def)

lemma check_usage_error: "check_usage st nm record = Inl err \<Longrightarrow> usage_error err"
  by (auto simp: check_usage_def usage_error_def split: option.splits jsval.splits)

text \<open>
  C4. When the named collection is missing from the registry, or the record argument
  is null, or the record's \<^verbatim>\<open>_index\<close> is not a number, \<^verbatim>\<open>update\<close> fails with a usage
  error and the whole state is as before: no request was sent, and the registry, the
  collection objects and the record objects are untouched.
\<close>

theorem update_record_usage_error:
  assumes "find_collection st collectionName = None \<or> record = None
           \<or> (\<exists>r. record = Some r \<and> (\<forall>k. obj_get (rheap st ! r) ''_index'' \<noteq> JNum k))"
  shows "\<exists>err. usage_error err \<and> update_record e collectionName record st = (Inl err, st)"
proof -
  from assms have "\<exists>err. check_usage st collectionName record = Inl err"
    by (auto simp: check_usage_def split: option.splits jsval.splits)
  then obtain err where err: "check_usage st collectionName record = Inl err" ..
  then have "update_record e collectionName record st = (Inl err, st)"
    by (simp add: update_record_def)
  with check_usage_error [OF err] show ?thesis by blast
qed

theorem update_record_usage_error_witness:
  "(\<exists>err. usage_error err \<and>
       update_record sample_env ''nobody'' (Some 0) loaded_db = (Inl err, loaded_db))
   \<and> (\<exists>err. usage_error err \<and>
       update_record sample_env ''users'' None loaded_db = (Inl err, loaded_db))
   \<and> (\<exists>err. usage_error err \<and>
       update_record sample_env ''users'' (Some 4) unindexed_db = (Inl err, unindexed_db))"
proof -
  have a: "find_collection loaded_db ''nobody'' = None"
    by code_simp
  have c: "obj_get (rheap unindexed_db ! 4) ''_index'' = JStr ''1''"
    by code_simp
  then have c': "\<forall>k. obj_get (rheap unindexed_db ! 4) ''_index'' \<noteq> JNum k"
    by simp
  show ?thesis
    using update_record_usage_error [of loaded_db "''nobody''" "Some 0" sample_env, OF disjI1, OF a]
      update_record_usage_error [of loaded_db "''users''" None sample_env]
      update_record_usage_error [of unindexed_db "''users''" "Some 4" sample_env]
      c'
    by blast
qed

text \<open>
  C9. For a collection name that is not in the registry, \<^verbatim>\<open>find\<close> returns the empty
  list and \<^verbatim>\<open>delete\<close> returns 0, both without an error and with the whole state
  (requests sent, registry, collections, records) as before; \<^verbatim>\<open>update\<close> and
  \<^verbatim>\<open>refreshRecord\<close> throw \<^verbatim>\<open>Collection not exists\<close> there.
\<close>

theorem missing_collection:
  assumes "find_collection st collectionName = None"
  shows "find_records e collectionName predicate st = (Inr [], st)
         \<and> delete_records e collectionName p st = (Inr (JNum 0), st)
         \<and> update_record e collectionName recd st = (Inl CollectionNotExists, st)
         \<and> refreshRecord e collectionName recd st = (Inl CollectionNotExists, st)"
  using assms
  by (simp add: find_records_def delete_records_def update_record_def refreshRecord_def
      check_usage_def)

theorem missing_collection_witness:
  "find_collection loaded_db ''nobody'' = None
   \<and> find_records sample_env ''nobody'' None loaded_db = (Inr [], loaded_db)
   \<and> delete_records sample_env ''nobody'' at_1_or_3 loaded_db = (Inr (JNum 0), loaded_db)
   \<and> update_record sample_env ''nobody'' (Some 0) loaded_db = (Inl CollectionNotExists, loaded_db)
   \<and> refreshRecord sample_env ''nobody'' (Some 0) loaded_db
       = (Inl CollectionNotExists, loaded_db)"
proof -
  have a: "find_collection loaded_db ''nobody'' = None" by code_simp
  show ?thesis
    using missing_collection [OF a, of sample_env None at_1_or_3 "Some 0"] a
    by simp
qed

subsection \<open>Materialization happens once\<close>

text \<open>
  C5. On a collection whose \<^verbatim>\<open>initialized\<close> flag is set \<^verbatim>\<open>initCollection\<close> is a
  no-op; so \<^verbatim>\<open>find\<close> and \<^verbatim>\<open>findOne\<close> on such a collection leave the whole state as it
  is (no request is sent, the column index and the row cache stay), and a second
  \<^verbatim>\<open>find\<close> gives what the first gave.
\<close>

theorem initCollection_idempotent:
  assumes "initialized (cheap st ! c)"
  shows "initCollection e c st = (Inr (), st)
         \<and> (find_collection st collectionName = Some c \<longrightarrow>
              snd (find_records e collectionName predicate st) = st
              \<and> snd (findOne e collectionName predicate st) = st
              \<and> find_records e collectionName predicate
                    (snd (find_records e collectionName predicate st))
                  = find_records e collectionName predicate st)"
proof -
  have i: "initCollection e c st = (Inr (), st)"
    using assms by (rule initCollection_done)
  have f: "snd (find_records e collectionName predicate st) = st"
    if "find_collection st collectionName = Some c"
    using that i by (simp add: find_records_def)
  have o: "snd (findOne e collectionName predicate st) = st"
    if "find_collection st collectionName = Some c"
    using f [OF that] by (auto simp: findOne_def split: prod.splits sum.splits list.splits)
  from i f o show ?thesis by simp
qed

theorem initCollection_idempotent_witness:
  "initialized (cheap loaded_db ! 0)
   \<and> initCollection sample_env 0 loaded_db = (Inr (), loaded_db)
   \<and> snd (find_records sample_env ''users'' None loaded_db) = loaded_db
   \<and> snd (findOne sample_env ''users'' None loaded_db) = loaded_db
   \<and> trace loaded_db = [Authenticate, GetSheets, ReadData ''users!A1:A5'']"
proof -
  have a: "initialized (cheap loaded_db ! 0)" by code_simp
  have b: "find_collection loaded_db ''users'' = Some 0" by code_simp
  have t: "trace loaded_db = [Authenticate, GetSheets, ReadData ''users!A1:A5'']" by code_simp
  show ?thesis
    using initCollection_idempotent [OF a, of sample_env "''users''" None] a b t by simp
qed

subsection \<open>insertMany and insert\<close>






text \<open>
  C2. Inserting the record \<^verbatim>\<open>{name: "a"}\<close> under a name that has no collection in the
  registry and then calling \<^verbatim>\<open>find\<close> on that name without a predicate is claimed to
  give exactly that record. In the code the record is stamped (\<^verbatim>\<open>_index\<close> 0, \<^verbatim>\<open>_id\<close>
  \<^verbatim>\<open>u0\<close>), but the new collection object is never put into \<^verbatim>\<open>this.collections\<close>:
  the registry is as before, the name is still unknown, and \<^verbatim>\<open>find\<close> returns the
  empty list.
\<close>

theorem insert_then_find_unregistered:
  "find_collection named_db ''people'' = None
   \<and> rheap named_db ! 0 = [(''name'', JStr ''a'')]
   \<and> rheap (snd (insert_record sample_env ''people'' 0 named_db)) ! 0
       = [(''name'', JStr ''a''), (''_index'', JNum 0), (''_id'', JStr ''u0'')]
   \<and> collections (snd (insert_record sample_env ''people'' 0 named_db)) = collections named_db
   \<and> find_collection (snd (insert_record sample_env ''people'' 0 named_db)) ''people'' = None
   \<and> fst (find_records sample_env ''people'' None
             (snd (insert_record sample_env ''people'' 0 named_db))) = Inr []"
  by code_simp

subsection \<open>update\<close>

lemma update_record_unfold:
  assumes "check_usage st nm record = Inr (c, r, k)"
    and "initCollection e c st = (Inr (), st1)" "c < length (cheap st1)"
    and "project_fields (rheap st1 ! r) (rColumns (rheap st1 ! r))
           (columns (cheap st1 ! c), column_map (cheap st1 ! c), False) []
         = ((cols, cmap, sync), val)"
    and "getColumnByIndex (int (length cols)) = Inr col"
  shows "update_record e nm record st =
     (case sync_and_write e c sync
             (range_text (name (cheap st1 ! c)) (''A'' @ string_of_int (k + 2))
                (col @ string_of_int (k + 2)))
             [val]
             (set_collection c ((cheap st1 ! c)\<lparr>columns := cols, column_map := cmap\<rparr>) st1) of
        (Inl err, st3) \<Rightarrow> (Inl err, st3)
      | (Inr _, st3) \<Rightarrow>
          (Inr (JBool True), set_collection c (data_set k r (cheap st3 ! c)) st3))"
  using assms
  by (simp add: update_record_def Let_def set_collection_simps add.commute
      split: prod.splits sum.splits)

lemma update_record_no_column:
  assumes "check_usage st nm record = Inr (c, r, k)"
    and "initCollection e c st = (Inr (), st1)" "c < length (cheap st1)"
    and "project_fields (rheap st1 ! r) (rColumns (rheap st1 ! r))
           (columns (cheap st1 ! c), column_map (cheap st1 ! c), False) []
         = ((cols, cmap, sync), val)"
    and "getColumnByIndex (int (length cols)) = Inl err"
  shows "update_record e nm record st =
           (Inl err, set_collection c ((cheap st1 ! c)\<lparr>columns := cols, column_map := cmap\<rparr>) st1)"
  using assms
  by (simp add: update_record_def Let_def set_collection_simps)

text \<open>
  C8. On a materialized collection, a successful \<^verbatim>\<open>update\<close> with a record whose
  \<^verbatim>\<open>_index\<close> is the index \<open>k\<close> of an existing position puts the given record into
  slot \<open>k\<close> of the row cache and changes no other slot; no record object is written
  (so no \<^verbatim>\<open>_index\<close> changes), and the registry and all other collections stay.
\<close>

theorem update_record_frame:
  assumes found: "find_collection st nm = Some c"
    and c: "c < length (cheap st)"
    and mat: "initialized (cheap st ! c)"
    and idx: "obj_get (rheap st ! r) ''_index'' = JNum k"
    and k: "array_index k" "nat k < length (data (cheap st ! c))"
    and run: "update_record e nm (Some r) st = (Inr v, st')"
  shows "data (cheap st' ! c) = (data (cheap st ! c))[nat k := Some r]
       \<and> data_props (cheap st' ! c) = data_props (cheap st ! c)
       \<and> rheap st' = rheap st
       \<and> collections st' = collections st
       \<and> length (cheap st') = length (cheap st)
       \<and> (\<forall>c'. c' \<noteq> c \<longrightarrow> cheap st' ! c' = cheap st ! c')"
proof -
  have chk: "check_usage st nm (Some r) = Inr (c, r, k)"
    using found idx by (simp add: check_usage_def)
  have init: "initCollection e c st = (Inr (), st)"
    using mat by (rule initCollection_done)
  obtain cols cmap sync val where
    proj: "project_fields (rheap st ! r) (rColumns (rheap st ! r))
             (columns (cheap st ! c), column_map (cheap st ! c), False) []
           = ((cols, cmap, sync), val)"
    by (metis prod_cases3 surj_pair)
  let ?st2 = "set_collection c ((cheap st ! c)\<lparr>columns := cols, column_map := cmap\<rparr>) st"
  show ?thesis
  proof (cases "getColumnByIndex (int (length cols))")
    case (Inl err)
    from update_record_no_column [OF chk init c proj Inl] run show ?thesis by simp
  next
    case (Inr col)
    have col2: "getColumnByIndex (int (length (columns (cheap ?st2 ! c)))) = Inr col"
      using c Inr by (simp add: set_collection_simps)
    note u = update_record_unfold [OF chk init c proj Inr]
    show ?thesis
      using run c k
      unfolding u sync_and_write_result [OF col2]
      by (auto simp: set_collection_simps data_set_def js_set_def set_collection_def
          split: if_splits)
  qed
qed

theorem update_record_frame_witness:
  "find_collection edited_db ''users'' = Some 0
   \<and> initialized (cheap edited_db ! 0)
   \<and> obj_get (rheap edited_db ! 4) ''_index'' = JNum 1
   \<and> fst (update_record sample_env ''users'' (Some 4) edited_db) = Inr (JBool True)
   \<and> data (cheap edited_db ! 0) = [Some 0, Some 1, Some 2, Some 3]
   \<and> data (cheap (snd (update_record sample_env ''users'' (Some 4) edited_db)) ! 0)
       = [Some 0, Some 4, Some 2, Some 3]
   \<and> rheap (snd (update_record sample_env ''users'' (Some 4) edited_db)) = rheap edited_db
   \<and> cheap (snd (update_record sample_env ''users'' (Some 4) edited_db)) ! 1
       = cheap edited_db ! 1"
proof -
  have found: "find_collection edited_db ''users'' = Some 0"
    and c: "0 < length (cheap edited_db)"
    and mat: "initialized (cheap edited_db ! 0)"
    and idx: "obj_get (rheap edited_db ! 4) ''_index'' = JNum 1"
    and d: "data (cheap edited_db ! 0) = [Some 0, Some 1, Some 2, Some 3]"
    by code_simp+
  have k: "array_index 1" "nat 1 < length (data (cheap edited_db ! 0))"
    by (simp_all add: d array_index_def)
  have res: "fst (update_record sample_env ''users'' (Some 4) edited_db) = Inr (JBool True)"
    by code_simp
  then have run: "update_record sample_env ''users'' (Some 4) edited_db
             = (Inr (JBool True), snd (update_record sample_env ''users'' (Some 4) edited_db))"
    by (metis prod.collapse)
  from update_record_frame [OF found c mat idx k run] found mat idx d res
  show ?thesis by simp
qed



subsection \<open>The order of the remote writes\<close>





subsection \<open>delete\<close>

text \<open>
  C3. After \<^verbatim>\<open>delete\<close> the row cache is claimed to hold exactly the records that did
  not match. With four records and a predicate matching the positions 1 and 3 the code
  returns 2 and removes the two remote rows, but the row cache still has all four
  records (re-stamped 0 to 3 with new ids): \<^verbatim>\<open>splice\<close> runs on \<^verbatim>\<open>this.collections\<close>,
  and the registry loses its entry at position 1, the collection \<^verbatim>\<open>orders\<close>.
\<close>

theorem delete_keeps_row_cache:
  "data (cheap loaded_db ! 0) = [Some 0, Some 1, Some 2, Some 3]
   \<and> collections loaded_db = [0, 1]
   \<and> fst (delete_records sample_env ''users'' at_1_or_3 loaded_db) = Inr (JNum 2)
   \<and> data (cheap (snd (delete_records sample_env ''users'' at_1_or_3 loaded_db)) ! 0)
       = [Some 0, Some 1, Some 2, Some 3]
   \<and> rheap (snd (delete_records sample_env ''users'' at_1_or_3 loaded_db))
       = [[(''_index'', JNum 0), (''_id'', JStr ''u4''), (''name'', JStr ''a'')],
          [(''_index'', JNum 1), (''_id'', JStr ''u5''), (''name'', JStr ''b'')],
          [(''_index'', JNum 2), (''_id'', JStr ''u6''), (''name'', JStr ''c'')],
          [(''_index'', JNum 3), (''_id'', JStr ''u7''), (''name'', JStr ''d'')]]
   \<and> collections (snd (delete_records sample_env ''users'' at_1_or_3 loaded_db)) = [0]
   \<and> find_collection (snd (delete_records sample_env ''users'' at_1_or_3 loaded_db)) ''orders''
       = None"
  by code_simp

end
